theory Spec2Isabelle
  imports Complex_Main "HOL-Library.Multiset"
begin

section \<open>The job matcher of src/main.py\<close>

text \<open>
  The matcher scores job postings against the skills found in a resume and ranks them.
  Python's \<open>float\<close> values are read as the real numbers they stand for: the arithmetic
  of the model is exact. A Python \<open>set\<close> of strings is a \<open>string set\<close>; the order in
  which Python iterates over it is not modelled. Strings are byte strings, and
  \<open>str.lower\<close> is modelled on the ASCII letters.
\<close>

subsection \<open>Data\<close>

text \<open>A job is a JSON object; every key that the code reads with \<open>job.get\<close> may be absent.\<close>

record job =
  JobID :: "string option"
  Title :: "string option"
  Location :: "string option"
  Responsibilities :: "string list option"
  Skills :: "string list option"

text \<open>The dictionary returned by \<open>calculate_score\<close>.\<close>

record scores =
  total_score :: real
  semantic_score :: real
  skill_match :: real
  missing_skills :: "string set"

text \<open>One entry of \<open>matches\<close> in \<open>analyze_resume\<close>.\<close>

record match =
  job_id :: string
  title :: string
  location :: string
  match_percentage :: real
  details :: scores

text \<open>A document returned by the vector store: text and a metadata dictionary.\<close>

record document =
  page_content :: string
  metadata :: "string \<rightharpoonup> int"

text \<open>The two globals of the module.\<close>

record 'vs app_state =
  vectorstore :: "'vs option"
  jobs_list :: "job list"


datatype error = ZeroDivisionError | BackendError

record response =
  top_jobs :: "match list"
  career_report :: string

subsection \<open>Strings and rounding\<close>

definition lower_char :: "char \<Rightarrow> char" where
  "lower_char c =
     (let n = (of_char c :: nat) in if 65 \<le> n \<and> n \<le> 90 then char_of (n + 32) else c)"

definition lower :: "string \<Rightarrow> string" where
  "lower s = map lower_char s"

text \<open>\<open>sep.join(xs)\<close>.\<close>

fun join :: "string \<Rightarrow> string list \<Rightarrow> string" where
  "join sep [] = []"
| "join sep [x] = x"
| "join sep (x # y # ys) = x @ sep @ join sep (y # ys)"

text \<open>Rounding to the nearest integer, a tie going to the even neighbour.\<close>

definition round_half_even :: "real \<Rightarrow> int" where
  "round_half_even y =
     (let f = \<lfloor>y\<rfloor>; r = y - of_int f in
      if r < 1 / 2 then f
      else if 1 / 2 < r then f + 1
      else if even f then f else f + 1)"

text \<open>\<open>round(x, 1)\<close>: one decimal place.\<close>

definition round1 :: "real \<Rightarrow> real" where
  "round1 x = of_int (round_half_even (x * 10)) / 10"

subsection \<open>Scoring\<close>

text \<open>\<open>job.get("Skills", [])\<close> and \<open>job.get("Responsibilities", [])\<close>.\<close>

definition skills_of :: "job \<Rightarrow> string list" where
  "skills_of j = (case Skills j of None \<Rightarrow> [] | Some xs \<Rightarrow> xs)"


text \<open>The three locals of \<open>calculate_score\<close>.\<close>

definition job_skills :: "job \<Rightarrow> string set" where
  "job_skills j = set (map lower (skills_of j))"

definition my_skills :: "string list \<Rightarrow> string set" where
  "my_skills resume_skills = set (map lower resume_skills)"

definition skill_score :: "string list \<Rightarrow> job \<Rightarrow> real" where
  "skill_score resume_skills j =
     (if job_skills j \<noteq> {}
      then real (card (my_skills resume_skills \<inter> job_skills j)) / real (card (job_skills j))
      else 0)"

definition calculate_score :: "string list \<Rightarrow> job \<Rightarrow> real \<Rightarrow> scores" where
  "calculate_score resume_skills j sem =
     (let final = (sem * 0.5) + (skill_score resume_skills j * 0.3) + (0.8 * 0.2) in
      \<lparr>total_score = round1 (final * 100),
       semantic_score = round1 (sem * 100),
       skill_match = round1 (skill_score resume_skills j * 100),
       missing_skills = job_skills j - my_skills resume_skills\<rparr>)"

subsection \<open>The analysis pipeline\<close>

text \<open>\<open>1 / (1 + float(dist))\<close>; the division raises when the divisor is zero.\<close>

definition similarity :: "real \<Rightarrow> error + real" where
  "similarity d = (if 1 + d = 0 then Inl ZeroDivisionError else Inr (1 / (1 + d)))"

text \<open>\<open>doc.metadata.get("index", -1)\<close>.\<close>

definition ordinal :: "document \<Rightarrow> int" where
  "ordinal doc = (case metadata doc ''index'' of None \<Rightarrow> - 1 | Some i \<Rightarrow> i)"

definition valid_ordinal :: "job list \<Rightarrow> document \<Rightarrow> bool" where
  "valid_ordinal jobs doc = (0 \<le> ordinal doc \<and> ordinal doc < int (length jobs))"

text \<open>The dictionary appended to \<open>matches\<close>.\<close>

definition make_match :: "job \<Rightarrow> scores \<Rightarrow> match" where
  "make_match j sc =
     \<lparr>job_id = (case JobID j of None \<Rightarrow> ''N/A'' | Some i \<Rightarrow> i),
      title = (case Title j of None \<Rightarrow> ''Unknown'' | Some t \<Rightarrow> t),
      location = (case Location j of None \<Rightarrow> ''Remote/Not Specified'' | Some l \<Rightarrow> l),
      match_percentage = total_score sc,
      details = sc\<rparr>"

text \<open>
  Step 4, the loop over \<open>docs\<close>, with the two accumulators \<open>matches\<close> and \<open>missing\<close>.
  The index is in range when the job is read, so the read cannot fail.
\<close>

fun score_matches ::
  "job list \<Rightarrow> string list \<Rightarrow> (document \<times> real) list \<Rightarrow> match list \<times> string set
     \<Rightarrow> error + (match list \<times> string set)" where
  "score_matches jobs skills [] acc = Inr acc"
| "score_matches jobs skills ((doc, d) # rest) (matches, missing) =
     (if valid_ordinal jobs doc then
        (case similarity d of
           Inl e \<Rightarrow> Inl e
         | Inr sem \<Rightarrow>
             (let sc = calculate_score skills (jobs ! nat (ordinal doc)) sem in
              score_matches jobs skills rest
                (matches @ [make_match (jobs ! nat (ordinal doc)) sc],
                 missing \<union> missing_skills sc)))
      else score_matches jobs skills rest (matches, missing))"

text \<open>
  \<open>matches.sort(key=..., reverse=True)\<close>. Python's sort is stable, and with
  \<open>reverse=True\<close> it reverses the list, sorts ascending and reverses again, which keeps
  equal keys in their order.
\<close>

definition sort_matches :: "match list \<Rightarrow> match list" where
  "sort_matches ms = rev (sort_key match_percentage (rev ms))"

text \<open>
  Step 3: the query of the vector store with \<open>k = 5\<close>, or the empty list when there is
  no store. The search itself is the library's and is a parameter.
\<close>

definition search_docs ::
  "('vs \<Rightarrow> string \<Rightarrow> nat \<Rightarrow> error + (document \<times> real) list) \<Rightarrow> 'vs option \<Rightarrow> string
     \<Rightarrow> error + (document \<times> real) list" where
  "search_docs search vs text =
     (case vs of None \<Rightarrow> Inr [] | Some v \<Rightarrow> search v text 5)"

text \<open>
  Steps 3 to 5 of \<open>analyze_resume\<close>, from the extracted text and the extracted skills.
  The report chain is a parameter. An exception of any step ends the request (the
  handler reports it with status 500).
\<close>

definition analyze_resume ::
  "('vs \<Rightarrow> string \<Rightarrow> nat \<Rightarrow> error + (document \<times> real) list)
     \<Rightarrow> (string \<Rightarrow> string list \<Rightarrow> string set \<Rightarrow> error + string)
     \<Rightarrow> 'vs app_state \<Rightarrow> string \<Rightarrow> string list \<Rightarrow> error + response" where
  "analyze_resume search report_chain st text skills =
     (case search_docs search (vectorstore st) text of
        Inl e \<Rightarrow> Inl e
      | Inr docs \<Rightarrow>
          (case score_matches (jobs_list st) skills docs ([], {}) of
             Inl e \<Rightarrow> Inl e
           | Inr (matches, missing) \<Rightarrow>
               (let ranked = sort_matches matches in
                case report_chain (take 2000 text) (map title ranked) missing of
                  Inl e \<Rightarrow> Inl e
                | Inr report \<Rightarrow> Inr \<lparr>top_jobs = ranked, career_report = report\<rparr>)))"

subsection \<open>Building and loading the index\<close>





text \<open>The state of the module when it has been imported.\<close>

definition initial_state :: "'vs app_state" where
  "initial_state = \<lparr>vectorstore = None, jobs_list = []\<rparr>"

subsection \<open>What step 4 is to compute\<close>

text \<open>
  The matches of step 4 as a map over the pairs whose ordinal is in range, in the order of
  the pairs, and the union of their missing skills. The loop is compared with these.
\<close>

definition match_of_pair :: "job list \<Rightarrow> string list \<Rightarrow> document \<times> real \<Rightarrow> match" where
  "match_of_pair jobs skills p =
     make_match (jobs ! nat (ordinal (fst p)))
       (calculate_score skills (jobs ! nat (ordinal (fst p))) (1 / (1 + snd p)))"

definition valid_pairs :: "job list \<Rightarrow> (document \<times> real) list \<Rightarrow> (document \<times> real) list" where
  "valid_pairs jobs docs = filter (\<lambda>p. valid_ordinal jobs (fst p)) docs"

definition expected_matches ::
  "job list \<Rightarrow> string list \<Rightarrow> (document \<times> real) list \<Rightarrow> match list" where
  "expected_matches jobs skills docs = map (match_of_pair jobs skills) (valid_pairs jobs docs)"

definition expected_missing ::
  "job list \<Rightarrow> string list \<Rightarrow> (document \<times> real) list \<Rightarrow> string set" where
  "expected_missing jobs skills docs =
     \<Union> (set (map (\<lambda>m. missing_skills (details m)) (expected_matches jobs skills docs)))"

subsection \<open>Example inputs\<close>

definition job_a :: job where
  "job_a = \<lparr>JobID = Some ''J1'', Title = Some ''Data Engineer'', Location = None,
             Responsibilities = None, Skills = Some [''python'', ''sql'']\<rparr>"


definition docs_e :: "(document \<times> real) list" where
  "docs_e =
     [(\<lparr>page_content = ''a'', metadata = [''index'' \<mapsto> 7]\<rparr>, 0),
      (\<lparr>page_content = ''b'', metadata = [''index'' \<mapsto> 0]\<rparr>, 1),
      (\<lparr>page_content = ''c'', metadata = Map.empty\<rparr>, 3),
      (\<lparr>page_content = ''d'', metadata = [''index'' \<mapsto> - 2]\<rparr>, 0),
      (\<lparr>page_content = ''e'', metadata = [''index'' \<mapsto> 1]\<rparr>, 3)]"

definition job_b :: job where
  "job_b = \<lparr>JobID = None, Title = Some ''Data Scientist'', Location = Some ''Lahore'',
             Responsibilities = Some [''Train models''], Skills = Some [''Python'']\<rparr>"

definition search_e :: "unit \<Rightarrow> string \<Rightarrow> nat \<Rightarrow> error + (document \<times> real) list" where
  "search_e v text k = Inr (take k docs_e)"

definition report_e :: "string \<Rightarrow> string list \<Rightarrow> string set \<Rightarrow> error + string" where
  "report_e text titles missing = Inr (join '', '' titles)"

definition state_e :: "unit app_state" where
  "state_e = \<lparr>vectorstore = Some (), jobs_list = [job_a, job_b]\<rparr>"



section \<open>Properties\<close>

subsection \<open>Rounding and the skill score\<close>


lemma round_half_even_ge: "of_int n \<le> y \<Longrightarrow> n \<le> round_half_even y"
proof -
  assume "of_int n \<le> y"
  then have "n \<le> \<lfloor>y\<rfloor>" by (simp add: le_floor_iff)
  then show ?thesis by (simp add: round_half_even_def Let_def)
qed

lemma round_half_even_le: "y \<le> of_int n \<Longrightarrow> round_half_even y \<le> n"
proof (cases "y = of_int n")
  case True
  then show ?thesis by (simp add: round_half_even_def)
next
  case False
  assume "y \<le> of_int n"
  with False have "y < of_int n" by simp
  then have "\<lfloor>y\<rfloor> < n" by (simp add: floor_less_iff)
  then show ?thesis by (auto simp: round_half_even_def Let_def)
qed

lemma round1_ge: "of_int n \<le> x * 10 \<Longrightarrow> of_int n / 10 \<le> round1 x"
  using round_half_even_ge [of n "x * 10"] by (simp add: round1_def divide_right_mono)

lemma round1_le: "x * 10 \<le> of_int n \<Longrightarrow> round1 x \<le> of_int n / 10"
  using round_half_even_le [of "x * 10" n] by (simp add: round1_def divide_right_mono)

lemma skill_score_ge0: "0 \<le> skill_score rs j"
  by (simp add: skill_score_def)

lemma finite_job_skills: "finite (job_skills j)"
  by (simp add: job_skills_def)

lemma skill_score_le1: "skill_score rs j \<le> 1"
proof (cases "job_skills j = {}")
  case True
  then show ?thesis by (simp add: skill_score_def)
next
  case False
  have "card (my_skills rs \<inter> job_skills j) \<le> card (job_skills j)"
    by (rule card_mono) (auto simp: finite_job_skills)
  moreover have "0 < card (job_skills j)"
    using False by (simp add: card_gt_0_iff finite_job_skills)
  ultimately show ?thesis
    using False by (simp add: skill_score_def)
qed


text \<open>
  C10: for every skill list, job and semantic similarity at least 0, the total score
  returned by the scorer is at least 16.0, the share of the fixed term \<open>0.8*0.2\<close>.
\<close>

theorem total_score_floor: "0 \<le> s \<Longrightarrow> 16 \<le> total_score (calculate_score rs j s)"
proof -
  assume s: "0 \<le> s"
  have "0 \<le> skill_score rs j" by (rule skill_score_ge0)
  with s have "of_int 160 \<le> ((s * 0.5 + skill_score rs j * 0.3 + 0.8 * 0.2) * 100) * 10"
    by simp
  from round1_ge [OF this] show ?thesis
    by (simp add: calculate_score_def Let_def)
qed


theorem total_score_floor_witness:
  "(0::real) \<le> 0 \<and> 16 \<le> total_score (calculate_score [] job_a 0)
   \<and> total_score (calculate_score [] job_a 0) = 16"
proof -
  have "total_score (calculate_score [] job_a 0) = 16"
    by code_simp
  then show ?thesis
    using total_score_floor [of 0 "[]" job_a] by simp
qed




text \<open>
  C4: for every skill list, job and semantic similarity in [0, 1], the three percentages
  returned by the scorer (semantic score, skill match, total score) lie in [0, 100].
\<close>

theorem scores_in_range:
  assumes "0 \<le> s" and "s \<le> 1"
  shows "0 \<le> semantic_score (calculate_score rs j s) \<and> semantic_score (calculate_score rs j s) \<le> 100
       \<and> 0 \<le> skill_match (calculate_score rs j s) \<and> skill_match (calculate_score rs j s) \<le> 100
       \<and> 0 \<le> total_score (calculate_score rs j s) \<and> total_score (calculate_score rs j s) \<le> 100"
proof -
  have k0: "0 \<le> skill_score rs j" and k1: "skill_score rs j \<le> 1"
    by (rule skill_score_ge0, rule skill_score_le1)
  have "of_int 0 \<le> (s * 100) * 10" using assms by simp
  from round1_ge [OF this] have a: "0 \<le> round1 (s * 100)" by simp
  have "(s * 100) * 10 \<le> of_int 1000" using assms by simp
  from round1_le [OF this] have b: "round1 (s * 100) \<le> 100" by simp
  have "of_int 0 \<le> (skill_score rs j * 100) * 10" using k0 by simp
  from round1_ge [OF this] have c: "0 \<le> round1 (skill_score rs j * 100)" by simp
  have "(skill_score rs j * 100) * 10 \<le> of_int 1000" using k1 by simp
  from round1_le [OF this] have d: "round1 (skill_score rs j * 100) \<le> 100" by simp
  have "of_int 0 \<le> ((s * 0.5 + skill_score rs j * 0.3 + 0.8 * 0.2) * 100) * 10"
    using assms k0 by simp
  from round1_ge [OF this]
  have e: "0 \<le> round1 ((s * 0.5 + skill_score rs j * 0.3 + 0.8 * 0.2) * 100)" by simp
  have "((s * 0.5 + skill_score rs j * 0.3 + 0.8 * 0.2) * 100) * 10 \<le> of_int 960"
    using assms k1 by simp
  from round1_le [OF this]
  have f: "round1 ((s * 0.5 + skill_score rs j * 0.3 + 0.8 * 0.2) * 100) \<le> 96" by simp
  show ?thesis using a b c d e f by (simp add: calculate_score_def Let_def)
qed

theorem scores_in_range_witness:
  "(0::real) \<le> 1 / 2 \<and> (1 / 2 :: real) \<le> 1
   \<and> semantic_score (calculate_score [''python''] job_a (1 / 2)) \<le> 100
   \<and> skill_match (calculate_score [''python''] job_a (1 / 2)) \<le> 100
   \<and> total_score (calculate_score [''python''] job_a (1 / 2)) \<le> 100
   \<and> 0 \<le> total_score (calculate_score [''python''] job_a (1 / 2))"
  using scores_in_range [of "1 / 2" "[''python'']" job_a] by simp

text \<open>
  C5, as amended: the missing skills returned by the scorer are a subset of the job's
  lowercased skill set, each of them is the lowercase form of a skill the job lists, and
  none of them is in the candidate's lowercased skill set. (They need not be among the
  skills as the job spells them.)
\<close>

theorem missing_skills_subset_disjoint:
  "missing_skills (calculate_score rs j s) \<subseteq> job_skills j
   \<and> missing_skills (calculate_score rs j s) \<subseteq> lower ` set (skills_of j)
   \<and> missing_skills (calculate_score rs j s) \<inter> my_skills rs = {}
   \<and> my_skills rs = lower ` set rs"
  by (auto simp: calculate_score_def Let_def job_skills_def my_skills_def)

text \<open>
  The job \<open>job_b\<close> lists the skill Python; for a candidate with no skill the scorer
  returns python, which is not a skill as the job spells it.
\<close>

theorem missing_skills_original_counterexample:
  "\<not> missing_skills (calculate_score [] job_b 1) \<subseteq> set (skills_of job_b)"
proof -
  have "missing_skills (calculate_score [] job_b 1) = {''python''}"
    unfolding calculate_score_def Let_def by simp code_simp
  moreover have "set (skills_of job_b) = {''Python''}"
    by (simp add: skills_of_def job_b_def)
  ultimately show ?thesis by simp
qed

text \<open>
  C6: the ranked list is in descending order of match percentage, the results with one
  and the same match percentage keep the order they had before the sort, and the ranked
  list has the same results as the list before the sort.
\<close>

theorem sort_matches_descending_stable:
  "sorted_wrt (\<lambda>a b. match_percentage b \<le> match_percentage a) (sort_matches ms)
   \<and> (\<forall>k. filter (\<lambda>m. match_percentage m = k) (sort_matches ms)
            = filter (\<lambda>m. match_percentage m = k) ms)
   \<and> mset (sort_matches ms) = mset ms"
proof -
  have "sorted (map match_percentage (sort_key match_percentage (rev ms)))"
    by (rule sorted_sort_key)
  then have "sorted_wrt (\<lambda>a b. match_percentage a \<le> match_percentage b)
               (sort_key match_percentage (rev ms))"
    by (simp add: sorted_map)
  then have a: "sorted_wrt (\<lambda>a b. match_percentage b \<le> match_percentage a) (sort_matches ms)"
    by (simp add: sort_matches_def sorted_wrt_rev)
  have b: "filter (\<lambda>m. match_percentage m = k) (sort_matches ms)
            = filter (\<lambda>m. match_percentage m = k) ms" for k
    by (simp add: sort_matches_def rev_filter [symmetric] sort_key_stable)
  have c: "mset (sort_matches ms) = mset ms"
    by (simp add: sort_matches_def)
  show ?thesis using a b c by blast
qed

subsection \<open>The pipeline\<close>

lemma valid_pairs_index:
  "valid_pairs jobs docs =
     filter (\<lambda>p. \<exists>i. metadata (fst p) ''index'' = Some i \<and> 0 \<le> i \<and> i < int (length jobs)) docs"
  unfolding valid_pairs_def
  by (rule filter_cong) (auto simp: valid_ordinal_def ordinal_def split: option.splits)

lemma similarity_nonneg: "0 \<le> d \<Longrightarrow> similarity d = Inr (1 / (1 + d))"
  by (simp add: similarity_def)

lemma score_matches_acc:
  "list_all (\<lambda>p. 0 \<le> snd p) docs \<Longrightarrow>
   score_matches jobs skills docs (ms, miss)
     = Inr (ms @ expected_matches jobs skills docs, miss \<union> expected_missing jobs skills docs)"
proof (induction docs arbitrary: ms miss)
  case Nil
  then show ?case
    by (simp add: expected_matches_def expected_missing_def valid_pairs_def)
next
  case (Cons p docs)
  obtain doc d where p: "p = (doc, d)" by (cases p)
  from Cons.prems p have d: "0 \<le> d" and rest: "list_all (\<lambda>p. 0 \<le> snd p) docs"
    by simp_all
  show ?case
  proof (cases "valid_ordinal jobs doc")
    case True
    then show ?thesis
      using Cons.IH [OF rest] similarity_nonneg [OF d]
      by (simp add: p Let_def expected_matches_def expected_missing_def valid_pairs_def
          match_of_pair_def make_match_def Un_assoc)
  next
    case False
    then show ?thesis
      using Cons.IH [OF rest]
      by (simp add: p expected_matches_def expected_missing_def valid_pairs_def)
  qed
qed

text \<open>
  C7: when the index returns the pairs \<open>docs\<close> (with distances that are not negative),
  the loop raises no error and produces a match exactly for the pairs whose metadata has
  an ordinal \<open>i\<close> with \<open>0 \<le> i < len(jobs_list)\<close>, in the order of the pairs; a pair whose
  ordinal is out of range or absent is dropped, and the matches of the other pairs are
  ranked and returned.
\<close>

theorem invalid_ordinals_skipped:
  assumes "search_docs search (vectorstore st) text = Inr docs"
    and "list_all (\<lambda>p. 0 \<le> snd p) docs"
  shows "score_matches (jobs_list st) skills docs ([], {})
           = Inr (expected_matches (jobs_list st) skills docs,
                  expected_missing (jobs_list st) skills docs)
       \<and> valid_pairs (jobs_list st) docs
           = filter (\<lambda>p. \<exists>i. metadata (fst p) ''index'' = Some i
                             \<and> 0 \<le> i \<and> i < int (length (jobs_list st))) docs
       \<and> analyze_resume search report_chain st text skills
           = (case report_chain (take 2000 text)
                     (map title (sort_matches (expected_matches (jobs_list st) skills docs)))
                     (expected_missing (jobs_list st) skills docs) of
                Inl e \<Rightarrow> Inl e
              | Inr r \<Rightarrow>
                  Inr \<lparr>top_jobs = sort_matches (expected_matches (jobs_list st) skills docs),
                       career_report = r\<rparr>)"
proof -
  have a: "score_matches (jobs_list st) skills docs ([], {})
           = Inr (expected_matches (jobs_list st) skills docs,
                  expected_missing (jobs_list st) skills docs)"
    using score_matches_acc [OF assms(2), of "jobs_list st" skills "[]" "{}"] by simp
  have b: "analyze_resume search report_chain st text skills
           = (case report_chain (take 2000 text)
                     (map title (sort_matches (expected_matches (jobs_list st) skills docs)))
                     (expected_missing (jobs_list st) skills docs) of
                Inl e \<Rightarrow> Inl e
              | Inr r \<Rightarrow>
                  Inr \<lparr>top_jobs = sort_matches (expected_matches (jobs_list st) skills docs),
                       career_report = r\<rparr>)"
    by (simp add: analyze_resume_def assms(1) a Let_def)
  show ?thesis using a b valid_pairs_index by blast
qed

theorem invalid_ordinals_skipped_witness:
  "list_all (\<lambda>p. 0 \<le> snd p) docs_e
   \<and> search_docs search_e (vectorstore state_e) ''cv'' = Inr docs_e
   \<and> map (\<lambda>p. page_content (fst p)) (valid_pairs (jobs_list state_e) docs_e) = [''b'', ''e'']
   \<and> map_sum id (\<lambda>r. map title (top_jobs r))
         (analyze_resume search_e report_e state_e ''cv'' [''python''])
       = Inr [''Data Scientist'', ''Data Engineer'']
   \<and> map_sum id (\<lambda>r. map match_percentage (top_jobs r))
         (analyze_resume search_e report_e state_e ''cv'' [''python''])
       = Inr [58.5, 56]"
proof -
  have h1: "search_docs search_e (vectorstore state_e) ''cv'' = Inr docs_e"
    by (simp add: search_docs_def search_e_def state_e_def docs_e_def)
  have h2: "list_all (\<lambda>p. 0 \<le> snd p) docs_e"
    by (simp add: docs_e_def)
  have v: "map (\<lambda>p. page_content (fst p)) (valid_pairs (jobs_list state_e) docs_e) = [''b'', ''e'']"
    by code_simp
  have t: "map title (sort_matches (expected_matches (jobs_list state_e) [''python''] docs_e))
             = [''Data Scientist'', ''Data Engineer'']"
    by code_simp
  have m: "map match_percentage
             (sort_matches (expected_matches (jobs_list state_e) [''python''] docs_e))
             = [58.5, 56]"
    by code_simp
  show ?thesis
    using invalid_ordinals_skipped [OF h1 h2, of "[''python'']" report_e] h1 h2 v t m
    by (simp add: report_e_def)
qed

text \<open>
  C8: when there is no vector store the query gives the empty list and raises nothing,
  and the request goes on to the report with no job: what it returns has an empty
  \<open>top_jobs\<close>.
\<close>

theorem unavailable_index_empty:
  "search_docs search None text = Inr []
   \<and> (vectorstore st = None \<longrightarrow>
        analyze_resume search report_chain st text skills
          = (case report_chain (take 2000 text) [] {} of
               Inl e \<Rightarrow> Inl e
             | Inr r \<Rightarrow> Inr \<lparr>top_jobs = [], career_report = r\<rparr>))"
  by (simp add: search_docs_def analyze_resume_def sort_matches_def)

theorem unavailable_index_empty_witness:
  "vectorstore (initial_state :: unit app_state) = None
   \<and> analyze_resume search_e report_e initial_state ''cv'' [''python'']
       = Inr \<lparr>top_jobs = [], career_report = []\<rparr>"
  using unavailable_index_empty [of search_e "''cv''" "initial_state :: unit app_state"
      report_e "[''python'']"]
  by (simp add: initial_state_def report_e_def)

subsection \<open>Start-up without a jobs file\<close>




end
